theory Spec2Isabelle
  imports
    Complex_Main
    "HOL-Library.Multiset"
    "HOL-Library.Char_ord"
    "HOL-Library.List_Lexorder"
begin

section \<open>The time-series store of db-sync-process-monitor.py\<close>

text \<open>
  \<^verbatim>\<open>init_db\<close> creates three tables in an SQLite file, none of them with a key, a
  uniqueness or a NOT NULL constraint:
  \<^verbatim>\<open>
  memory_metrics  (slot_no INTEGER, rss REAL, vms REAL, uss REAL,
                   pss REAL, swap REAL, shared REAL, version TEXT)
  cpu_metrics     (slot_no INTEGER, cpu_percent REAL, user_time REAL,
                   system_time REAL, children_user REAL, children_system REAL,
                   iowait REAL, ctx_switches INTEGER, interrupts INTEGER, version TEXT)
  db_sync_version (timestamp TEXT, version TEXT)
  \<close>
  A table is the list of its rows in insertion (rowid) order. A column that may hold
  NULL is an \<open>option\<close>. Python floats are modelled as reals: the only arithmetic the
  scripts do on them is the division of a byte count by \<open>1024 ** 2\<close>, which is exact for
  every count below \<open>2 ^ 53\<close>. TEXT values are byte strings, compared bytewise (SQLite's
  BINARY collation), which is the lexicographic order on \<open>string\<close>.
\<close>

record memory_row =
  m_slot_no :: int
  m_rss :: "real option"
  m_vms :: "real option"
  m_uss :: "real option"
  m_pss :: "real option"
  m_swap :: "real option"
  m_shared :: "real option"
  m_version :: string

record cpu_row =
  c_slot_no :: int
  c_cpu_percent :: "real option"
  c_user_time :: "real option"
  c_system_time :: "real option"
  c_children_user :: "real option"
  c_children_system :: "real option"
  c_iowait :: "real option"
  c_ctx_switches :: "int option"
  c_interrupts :: "int option"
  c_version :: string

record version_row =
  v_timestamp :: string
  v_version :: string

record store =
  memory_metrics :: "memory_row list"
  cpu_metrics :: "cpu_row list"
  db_sync_version :: "version_row list"

definition empty_store :: store where
  "empty_store = \<lparr>memory_metrics = [], cpu_metrics = [], db_sync_version = []\<rparr>"

text \<open>
  \<^verbatim>\<open>CREATE TABLE IF NOT EXISTS\<close>: a missing file (\<open>None\<close>) becomes the empty store, an
  existing one is left as it is.
\<close>

definition init_db :: "store option \<Rightarrow> store" where
  "init_db f = (case f of None \<Rightarrow> empty_store | Some st \<Rightarrow> st)"

text \<open>
  The three \<^verbatim>\<open>INSERT INTO ... VALUES (?,...)\<close> statements of \<^verbatim>\<open>log_metrics\<close>. Each gives
  as many values as its table has columns (8, 10 and 2), and no table has a constraint
  that a row could violate, so an insert appends its row.
\<close>

definition insert_memory_metrics :: "memory_row \<Rightarrow> store \<Rightarrow> store" where
  "insert_memory_metrics r st = st\<lparr>memory_metrics := memory_metrics st @ [r]\<rparr>"

definition insert_cpu_metrics :: "cpu_row \<Rightarrow> store \<Rightarrow> store" where
  "insert_cpu_metrics r st = st\<lparr>cpu_metrics := cpu_metrics st @ [r]\<rparr>"

definition insert_db_sync_version :: "version_row \<Rightarrow> store \<Rightarrow> store" where
  "insert_db_sync_version r st = st\<lparr>db_sync_version := db_sync_version st @ [r]\<rparr>"

subsection \<open>The comparison queries\<close>

text \<open>
  \<^verbatim>\<open>SELECT slot_no, rss, version FROM memory_metrics
    WHERE version IN (?,...) ORDER BY slot_no\<close>
  and the same over \<^verbatim>\<open>cpu_metrics\<close> with \<^verbatim>\<open>cpu_percent\<close>, as built by \<^verbatim>\<open>load_metrics\<close>
  (regenerate-plots.py) and \<^verbatim>\<open>plot_metrics\<close> (db-sync-process-monitor.py). The table is
  scanned in rowid order, the rows whose version is among the parameters are kept, and
  SQLite's sorter orders them by \<^verbatim>\<open>slot_no\<close>; the sorter keeps rows of equal key in the
  order they were fed to it, so the sort is the stable \<open>sort_key\<close>. With no parameter the
  statement reads \<^verbatim>\<open>IN ()\<close>, which SQLite accepts and which no row satisfies.
\<close>

type_synonym mem_point = "int \<times> real option \<times> string"
type_synonym cpu_point = "int \<times> real option \<times> string"

definition mem_point_of :: "memory_row \<Rightarrow> mem_point" where
  "mem_point_of r = (m_slot_no r, m_rss r, m_version r)"

definition cpu_point_of :: "cpu_row \<Rightarrow> cpu_point" where
  "cpu_point_of r = (c_slot_no r, c_cpu_percent r, c_version r)"

definition qm :: "string list \<Rightarrow> store \<Rightarrow> mem_point list" where
  "qm versions st =
     sort_key fst (map mem_point_of
       (filter (\<lambda>r. m_version r \<in> set versions) (memory_metrics st)))"

definition qc :: "string list \<Rightarrow> store \<Rightarrow> cpu_point list" where
  "qc versions st =
     sort_key fst (map cpu_point_of
       (filter (\<lambda>r. c_version r \<in> set versions) (cpu_metrics st)))"

definition load_metrics :: "store \<Rightarrow> string list \<Rightarrow> mem_point list \<times> cpu_point list" where
  "load_metrics st versions = (qm versions st, qc versions st)"

text \<open>
  The per-version trace of \<^verbatim>\<open>plot_and_save\<close> and \<^verbatim>\<open>plot_metrics\<close>:
  \<^verbatim>\<open>mem_df[mem_df["version"] == v]\<close>, a filter that keeps the frame's row order.
\<close>

definition trace_of :: "string \<Rightarrow> (int \<times> real option \<times> string) list
    \<Rightarrow> (int \<times> real option \<times> string) list" where
  "trace_of v df = filter (\<lambda>p. snd (snd p) = v) df"

section \<open>Process discovery and metric extraction\<close>

text \<open>
  What psutil answers for one process at one instant. A method that raises is \<open>Inl\<close>
  of the exception; a field that the platform's named tuple does not have is \<open>None\<close>
  (\<^verbatim>\<open>getattr\<close> with a default and \<^verbatim>\<open>hasattr\<close> are the two ways the scripts look at it).
  \<open>ZombieProcess\<close> is a subclass of \<open>NoSuchProcess\<close> and is counted with it;
  \<open>OperationalError\<close> is \<^verbatim>\<open>sqlite3.OperationalError\<close>; \<open>OtherException\<close> stands for
  everything else that derives from \<^verbatim>\<open>Exception\<close>.
\<close>

datatype exn =
  NoSuchProcess | AccessDenied | AttributeError | TypeError | ValueError | IndexError
  | OperationalError | OtherException

record pmem =
  mi_rss :: int
  mi_vms :: int
  mi_shared :: "int option"

record pfullmem =
  mfi_uss :: "int option"
  mfi_pss :: "int option"
  mfi_swap :: "int option"

record pcputimes =
  t_user :: real
  t_system :: real
  t_children_user :: "real option"
  t_children_system :: "real option"
  t_iowait :: "real option"

record pctxsw =
  voluntary :: int
  involuntary :: int

record process =
  proc_memory_info :: "exn + pmem"
  proc_memory_full_info :: "exn + pfullmem"
  proc_cpu_times :: "exn + pcputimes"
  proc_cpu_percent :: "exn + real"
  proc_num_ctx_switches :: "exn + pctxsw"

record proc_entry =
  info_cmdline :: "string list option"
  handle :: process

definition getattr :: "'a option \<Rightarrow> 'a \<Rightarrow> 'a" where
  "getattr field dflt = (case field of None \<Rightarrow> dflt | Some v \<Rightarrow> v)"

fun join :: "string \<Rightarrow> string list \<Rightarrow> string" where
  "join sep [] = []"
| "join sep [x] = x"
| "join sep (x # y # ys) = x @ sep @ join sep (y # ys)"

fun starts_with :: "string \<Rightarrow> string \<Rightarrow> bool" where
  "starts_with s [] = True"
| "starts_with [] (c # cs) = False"
| "starts_with (d # ds) (c # cs) = (d = c \<and> starts_with ds cs)"

text \<open>\<^verbatim>\<open>sub in s\<close> on strings.\<close>

fun contains :: "string \<Rightarrow> string \<Rightarrow> bool" where
  "contains [] sub = (sub = [])"
| "contains (c # cs) sub = (starts_with (c # cs) sub \<or> contains cs sub)"

text \<open>
  \<^verbatim>\<open>get_process\<close>: the first process of the iteration whose command line, joined by
  blanks, contains \<^verbatim>\<open>cardano-db-sync\<close>; \<^verbatim>\<open>proc.info['cmdline'] or []\<close> reads a missing or
  empty command line as the empty list.
\<close>

fun get_process :: "proc_entry list \<Rightarrow> process option" where
  "get_process [] = None"
| "get_process (pe # ps) =
     (if contains (join '' '' (case info_cmdline pe of None \<Rightarrow> [] | Some cl \<Rightarrow> cl))
           ''cardano-db-sync''
      then Some (handle pe) else get_process ps)"

subsection \<open>db-sync-process-monitor.py\<close>

record memory_details =
  mem_rss :: real
  mem_vms :: real
  mem_uss :: real
  mem_pss :: real
  mem_swap :: real
  mem_shared :: real

record cpu_details =
  cpu_percent :: real
  cpu_user_time :: real
  cpu_system_time :: real
  cpu_children_user :: real
  cpu_children_system :: real
  cpu_iowait :: real
  cpu_ctx_switches :: int
  cpu_interrupts :: "int option"

text \<open>
  \<^verbatim>\<open>get_memory_details\<close>, with its \<^verbatim>\<open>except Exception: return None\<close>. A field missing
  from the tuple is read as \<^verbatim>\<open>getattr(mfi, 'uss', 0)\<close>, the integer 0, and divided
  like the others.
\<close>

definition get_memory_details :: "process \<Rightarrow> memory_details option" where
  "get_memory_details p =
     (case proc_memory_info p of
        Inl _ \<Rightarrow> None
      | Inr mi \<Rightarrow>
         (case proc_memory_full_info p of
            Inl _ \<Rightarrow> None
          | Inr mfi \<Rightarrow> Some
              \<lparr>mem_rss = real_of_int (mi_rss mi) / 1024 ^ 2,
               mem_vms = real_of_int (mi_vms mi) / 1024 ^ 2,
               mem_uss = real_of_int (getattr (mfi_uss mfi) 0) / 1024 ^ 2,
               mem_pss = real_of_int (getattr (mfi_pss mfi) 0) / 1024 ^ 2,
               mem_swap = real_of_int (getattr (mfi_swap mfi) 0) / 1024 ^ 2,
               mem_shared = real_of_int (getattr (mi_shared mi) 0) / 1024 ^ 2\<rparr>))"

text \<open>\<^verbatim>\<open>get_cpu_details\<close>: the three reads in the source's order, any exception gives None.\<close>

definition get_cpu_details :: "process \<Rightarrow> cpu_details option" where
  "get_cpu_details p =
     (case proc_cpu_times p of
        Inl _ \<Rightarrow> None
      | Inr cpu_tms \<Rightarrow>
         (case proc_cpu_percent p of
            Inl _ \<Rightarrow> None
          | Inr percent \<Rightarrow>
             (case proc_num_ctx_switches p of
                Inl _ \<Rightarrow> None
              | Inr ctx \<Rightarrow> Some
                  \<lparr>cpu_percent = percent,
                   cpu_user_time = t_user cpu_tms,
                   cpu_system_time = t_system cpu_tms,
                   cpu_children_user = getattr (t_children_user cpu_tms) 0,
                   cpu_children_system = getattr (t_children_system cpu_tms) 0,
                   cpu_iowait = getattr (t_iowait cpu_tms) 0,
                   cpu_ctx_switches = voluntary ctx + involuntary ctx,
                   cpu_interrupts = None\<rparr>)))"

section \<open>The sampling loop of db-sync-process-monitor.py\<close>

record monitor =
  env :: string
  db_sync_ver :: string

definition get_db_sync_version :: "monitor \<Rightarrow> string" where
  "get_db_sync_version m = ''cardano-db-sync '' @ db_sync_ver m @ '' '' @ env m"

text \<open>
  What the world answers during one pass of the \<^verbatim>\<open>while self.running\<close> loop: the flag at
  the loop test, the result of \<^verbatim>\<open>get_slot_no\<close> (None when the query fails or finds no
  row), the process table, the result of \<^verbatim>\<open>get_sync_percent\<close> (None when the query fails
  or yields NULL) and \<^verbatim>\<open>datetime.now().isoformat()\<close>.
\<close>

record tick_env =
  env_running :: bool
  env_slot_no :: "int option"
  env_processes :: "proc_entry list"
  env_sync_percent :: "real option"
  env_now :: string

text \<open>
  What the loop does besides writing the store: the status line and the sleep. The
  status line carries the four values it formats; None for CPU or RSS is the text
  \<^verbatim>\<open>N/A\<close> of the source's conditional expressions. How a float is spelled is not
  modelled.
\<close>

datatype event = Status int real "real option" "real option" | Sleep nat

text \<open>
  The format specification \<^verbatim>\<open>{sync_progress:.2f}\<close>: a float is formatted, None raises
  \<^verbatim>\<open>TypeError: unsupported format string passed to NoneType.__format__\<close>.
\<close>

definition format_2f :: "real option \<Rightarrow> exn + real" where
  "format_2f v = (case v of None \<Rightarrow> Inl TypeError | Some x \<Rightarrow> Inr x)"

definition memory_row_of :: "int \<Rightarrow> memory_details \<Rightarrow> string \<Rightarrow> memory_row" where
  "memory_row_of slot mem ver =
     \<lparr>m_slot_no = slot, m_rss = Some (mem_rss mem), m_vms = Some (mem_vms mem),
      m_uss = Some (mem_uss mem), m_pss = Some (mem_pss mem),
      m_swap = Some (mem_swap mem), m_shared = Some (mem_shared mem),
      m_version = ver\<rparr>"

definition cpu_row_of :: "int \<Rightarrow> cpu_details \<Rightarrow> string \<Rightarrow> cpu_row" where
  "cpu_row_of slot cpu ver =
     \<lparr>c_slot_no = slot, c_cpu_percent = Some (cpu_percent cpu),
      c_user_time = Some (cpu_user_time cpu), c_system_time = Some (cpu_system_time cpu),
      c_children_user = Some (cpu_children_user cpu),
      c_children_system = Some (cpu_children_system cpu),
      c_iowait = Some (cpu_iowait cpu), c_ctx_switches = Some (cpu_ctx_switches cpu),
      c_interrupts = cpu_interrupts cpu, c_version = ver\<rparr>"

text \<open>
  One pass of the loop body, after the loop test, in which the engine carries out every
  statement: the store it leaves, what it printed and slept, and the exception that left
  the body, if any.
\<close>

definition tick :: "monitor \<Rightarrow> tick_env \<Rightarrow> store \<Rightarrow> store \<times> event list \<times> exn option" where
  "tick m e st =
     (case env_slot_no e of
        None \<Rightarrow> (st, [Sleep 10], None)
      | Some slot \<Rightarrow>
         (let proc = get_process (env_processes e);
              mem = (case proc of None \<Rightarrow> None | Some p \<Rightarrow> get_memory_details p);
              cpu = (case proc of None \<Rightarrow> None | Some p \<Rightarrow> get_cpu_details p);
              ver = get_db_sync_version m;
              sync_progress = env_sync_percent e;
              st1 = (case mem of None \<Rightarrow> st
                     | Some d \<Rightarrow> insert_memory_metrics (memory_row_of slot d ver) st);
              st2 = (case cpu of None \<Rightarrow> st1
                     | Some d \<Rightarrow> insert_cpu_metrics (cpu_row_of slot d ver) st1);
              st3 = insert_db_sync_version \<lparr>v_timestamp = env_now e, v_version = ver\<rparr> st2
          in (case format_2f sync_progress of
                Inl x \<Rightarrow> (st3, [], Some x)
              | Inr sp \<Rightarrow>
                  (st3,
                   [Status slot sp (map_option cpu_percent cpu) (map_option mem_rss mem),
                    Sleep 10],
                   None))))"

text \<open>
  The loop over the passes observed so far. \<open>Pending\<close>: every observed pass is done and
  the loop is still running; \<open>Stopped\<close>: the loop test found \<^verbatim>\<open>self.running\<close> false;
  \<open>Raised\<close>: an exception left the loop body, which ends the sampling thread.
\<close>

datatype status = Pending | Stopped | Raised exn

fun log_loop :: "monitor \<Rightarrow> tick_env list \<Rightarrow> store \<Rightarrow> store \<times> event list \<times> status" where
  "log_loop m [] st = (st, [], Pending)"
| "log_loop m (e # es) st =
     (if \<not> env_running e then (st, [], Stopped)
      else (case tick m e st of
              (st', evs, Some x) \<Rightarrow> (st', evs, Raised x)
            | (st', evs, None) \<Rightarrow>
                (case log_loop m es st' of (st'', evs', r) \<Rightarrow> (st'', evs @ evs', r))))"

text \<open>
  \<^verbatim>\<open>log_metrics\<close>: the CPU counter of the process found before the loop is primed by a
  \<^verbatim>\<open>cpu_percent\<close> call outside any \<^verbatim>\<open>try\<close>, then the loop runs.
\<close>

definition log_metrics :: "monitor \<Rightarrow> proc_entry list \<Rightarrow> tick_env list \<Rightarrow> store
    \<Rightarrow> store \<times> event list \<times> status" where
  "log_metrics m procs0 envs st =
     (case get_process procs0 of
        None \<Rightarrow> log_loop m envs st
      | Some p \<Rightarrow>
         (case proc_cpu_percent p of
            Inl x \<Rightarrow> (st, [], Raised x)
          | Inr _ \<Rightarrow> log_loop m envs st))"

subsection \<open>The insert statements and the engine\<close>

text \<open>
  Each statement runs as \<^verbatim>\<open>with sqlite3.connect(self.db_file) as conn: conn.execute(...)\<close>
  with no \<^verbatim>\<open>try\<close> around it. The engine either carries the statement out and commits, or
  fails on the file (locked by another connection beyond the timeout, I/O error, full
  disk): then \<^verbatim>\<open>sqlite3.OperationalError\<close> leaves the block, nothing is committed, and
  the statements that would have followed are not run.
\<close>

datatype sqlite_result = Completed | Failed

datatype insert_stmt =
  InsertMemory memory_row | InsertCpu cpu_row | InsertVersion version_row

definition execute_insert :: "sqlite_result \<Rightarrow> insert_stmt \<Rightarrow> store \<Rightarrow> exn + store" where
  "execute_insert res stmt st =
     (case res of
        Failed \<Rightarrow> Inl OperationalError
      | Completed \<Rightarrow> Inr
          (case stmt of
             InsertMemory r \<Rightarrow> insert_memory_metrics r st
           | InsertCpu r \<Rightarrow> insert_cpu_metrics r st
           | InsertVersion r \<Rightarrow> insert_db_sync_version r st))"

fun execute_inserts :: "(sqlite_result \<times> insert_stmt) list \<Rightarrow> store \<Rightarrow> exn + store" where
  "execute_inserts [] st = Inr st"
| "execute_inserts ((res, stmt) # rest) st =
     (case execute_insert res stmt st of
        Inl e \<Rightarrow> Inl e
      | Inr st' \<Rightarrow> execute_inserts rest st')"

text \<open>The memory rows and the cpu rows that a list of statements gives, in order.\<close>

fun appended_memory :: "insert_stmt list \<Rightarrow> memory_row list" where
  "appended_memory [] = []"
| "appended_memory (InsertMemory r # ss) = r # appended_memory ss"
| "appended_memory (InsertCpu r # ss) = appended_memory ss"
| "appended_memory (InsertVersion r # ss) = appended_memory ss"

fun appended_cpu :: "insert_stmt list \<Rightarrow> cpu_row list" where
  "appended_cpu [] = []"
| "appended_cpu (InsertMemory r # ss) = appended_cpu ss"
| "appended_cpu (InsertCpu r # ss) = r # appended_cpu ss"
| "appended_cpu (InsertVersion r # ss) = appended_cpu ss"

text \<open>The statements that one pass of the sampling loop runs, in the order it runs them.\<close>

definition tick_statements :: "monitor \<Rightarrow> tick_env \<Rightarrow> insert_stmt list" where
  "tick_statements m e =
     (case env_slot_no e of
        None \<Rightarrow> []
      | Some slot \<Rightarrow>
         (let proc = get_process (env_processes e);
              mem = (case proc of None \<Rightarrow> None | Some p \<Rightarrow> get_memory_details p);
              cpu = (case proc of None \<Rightarrow> None | Some p \<Rightarrow> get_cpu_details p);
              ver = get_db_sync_version m
          in (case mem of None \<Rightarrow> [] | Some d \<Rightarrow> [InsertMemory (memory_row_of slot d ver)])
             @ (case cpu of None \<Rightarrow> [] | Some d \<Rightarrow> [InsertCpu (cpu_row_of slot d ver)])
             @ [InsertVersion \<lparr>v_timestamp = env_now e, v_version = ver\<rparr>]))"

section \<open>Listing and selecting versions\<close>

text \<open>
  \<^verbatim>\<open>SELECT DISTINCT version FROM db_sync_version ORDER BY timestamp DESC\<close>, the query of
  \<^verbatim>\<open>load_versions\<close> (regenerate-plots.py) and of \<^verbatim>\<open>run\<close> (db-sync-process-monitor.py).
  The sort key is not a result column. SQLite scans the table in rowid order, drops a
  row whose version is already in its index of distinct results, and only then hands
  the row with its timestamp to the sorter: each version is represented by its first
  inserted row, and these rows are sorted by descending timestamp, rows of equal
  timestamp staying in scan order.
\<close>

fun first_of_each :: "string list \<Rightarrow> version_row list \<Rightarrow> version_row list" where
  "first_of_each seen [] = []"
| "first_of_each seen (r # rs) =
     (if v_version r \<in> set seen then first_of_each seen rs
      else r # first_of_each (v_version r # seen) rs)"

definition order_by_timestamp_desc :: "version_row list \<Rightarrow> version_row list" where
  "order_by_timestamp_desc rs = rev (sort_key v_timestamp (rev rs))"

definition load_versions :: "store \<Rightarrow> string list" where
  "load_versions st =
     map v_version (order_by_timestamp_desc (first_of_each [] (db_sync_version st)))"

subsection \<open>Python's string and list primitives\<close>

text \<open>
  Strings are byte strings here; the operator's input is taken to be ASCII. The
  whitespace that \<^verbatim>\<open>str.strip\<close> removes in that range: tab, line feed, vertical tab,
  form feed, carriage return, the separators 0x1C to 0x1F and the blank. \<^verbatim>\<open>int\<close> skips
  less around its numeral: the same characters without the four separators, so that
  \<^verbatim>\<open>int('\x1f2')\<close> is a ValueError while \<^verbatim>\<open>int('\x1f2'.strip())\<close> is 2.
\<close>

definition is_space :: "char \<Rightarrow> bool" where
  "is_space c = (c \<in> set [CHR 0x09, CHR 0x0A, CHR 0x0B, CHR 0x0C, CHR 0x0D,
                            CHR 0x1C, CHR 0x1D, CHR 0x1E, CHR 0x1F, CHR 0x20])"

definition is_int_space :: "char \<Rightarrow> bool" where
  "is_int_space c = (c \<in> set [CHR 0x09, CHR 0x0A, CHR 0x0B, CHR 0x0C, CHR 0x0D, CHR 0x20])"

definition strip_where :: "(char \<Rightarrow> bool) \<Rightarrow> string \<Rightarrow> string" where
  "strip_where sp s = rev (dropWhile sp (rev (dropWhile sp s)))"

definition strip :: "string \<Rightarrow> string" where
  "strip s = strip_where is_space s"

definition is_digit :: "char \<Rightarrow> bool" where
  "is_digit c = (c \<in> set ''0123456789'')"

text \<open>Digits with single underscores between them, as \<^verbatim>\<open>int\<close> accepts them.\<close>

fun digits_ok :: "string \<Rightarrow> bool" where
  "digits_ok [] = False"
| "digits_ok [c] = is_digit c"
| "digits_ok (c # d # cs) =
     (is_digit c \<and> (if d = CHR ''_'' then digits_ok cs else digits_ok (d # cs)))"

definition digits_value :: "string \<Rightarrow> int" where
  "digits_value ds = foldl (\<lambda>a c. 10 * a + (of_char c - 48)) 0 ds"

text \<open>
  \<^verbatim>\<open>int(s)\<close> in base 10: surrounding whitespace, one optional sign, digits. (The limit
  on the number of digits that newer interpreters add turns a numeral of more than 4300
  digits into a ValueError; here it is parsed, and is then out of range as an index.)
\<close>

definition py_int :: "string \<Rightarrow> exn + int" where
  "py_int s =
     (let t = strip_where is_int_space s;
          neg = (t \<noteq> [] \<and> hd t = CHR ''-'');
          body = (if t \<noteq> [] \<and> (hd t = CHR ''-'' \<or> hd t = CHR ''+'') then tl t else t)
      in if digits_ok body
         then Inr ((if neg then - 1 else 1) * digits_value (filter (\<lambda>c. c \<noteq> CHR ''_'') body))
         else Inl ValueError)"

text \<open>\<^verbatim>\<open>s.split(",")\<close>: always at least one piece.\<close>

fun split_comma :: "string \<Rightarrow> string list" where
  "split_comma [] = [[]]"
| "split_comma (c # cs) =
     (if c = CHR '','' then [] # split_comma cs
      else (case split_comma cs of [] \<Rightarrow> [[c]] | w # ws \<Rightarrow> (c # w) # ws))"

text \<open>\<^verbatim>\<open>xs[i]\<close>: a negative index counts from the end, anything else out of range raises.\<close>

definition py_index :: "'a list \<Rightarrow> int \<Rightarrow> exn + 'a" where
  "py_index xs i =
     (if 0 \<le> i \<and> i < int (length xs) then Inr (xs ! nat i)
      else if i < 0 \<and> - int (length xs) \<le> i then Inr (xs ! nat (int (length xs) + i))
      else Inl IndexError)"

text \<open>A list comprehension whose element expression may raise: the first exception wins.\<close>

fun comprehension :: "('a \<Rightarrow> exn + 'b) \<Rightarrow> 'a list \<Rightarrow> exn + 'b list" where
  "comprehension f [] = Inr []"
| "comprehension f (x # xs) =
     (case f x of
        Inl e \<Rightarrow> Inl e
      | Inr y \<Rightarrow> (case comprehension f xs of Inl e \<Rightarrow> Inl e | Inr ys \<Rightarrow> Inr (y # ys)))"

subsection \<open>regenerate-plots.py\<close>

text \<open>
  The two comprehensions inside the \<^verbatim>\<open>try\<close> of \<^verbatim>\<open>main\<close>:
  \<^verbatim>\<open>idxs = [int(x.strip()) - 1 for x in sel.split(",")]\<close> and
  \<^verbatim>\<open>chosen = [versions[i] for i in idxs]\<close>.
\<close>

definition main_chosen :: "string list \<Rightarrow> string \<Rightarrow> exn + string list" where
  "main_chosen versions sel =
     (case comprehension (\<lambda>x. map_sum id (\<lambda>n. n - 1) (py_int (strip x))) (split_comma sel) of
        Inl e \<Rightarrow> Inl e
      | Inr idxs \<Rightarrow> comprehension (py_index versions) idxs)"

text \<open>
  \<^verbatim>\<open>main\<close> on a store and the operator's input line: it prints
  \<^verbatim>\<open>No versions found in SQLite DB. Exiting.\<close> and returns, or prints
  \<^verbatim>\<open>Invalid selection. Exiting.\<close> and returns, or loads the chosen series and hands
  them to the plot.
\<close>

datatype main_result =
  NoVersionsFound
  | InvalidSelection
  | Compared "string list" "mem_point list \<times> cpu_point list"

definition main :: "store \<Rightarrow> string \<Rightarrow> main_result" where
  "main st sel =
     (let versions = load_versions st
      in if versions = [] then NoVersionsFound
         else (case main_chosen versions sel of
                 Inl _ \<Rightarrow> InvalidSelection
               | Inr chosen \<Rightarrow> Compared chosen (load_metrics st chosen)))"

subsection \<open>db-sync-process-monitor.py\<close>

text \<open>
  \<^verbatim>\<open>chosen = [vers[int(i) - 1] for i in sel.split(",")]\<close> of \<^verbatim>\<open>run\<close>, which stands in a
  \<^verbatim>\<open>try\<close> that catches KeyboardInterrupt only: any exception of the comprehension leaves
  \<^verbatim>\<open>run\<close> and ends the program.
\<close>

definition run_chosen :: "string list \<Rightarrow> string \<Rightarrow> exn + string list" where
  "run_chosen vers sel =
     comprehension
       (\<lambda>i. case py_int i of Inl e \<Rightarrow> Inl e | Inr n \<Rightarrow> py_index vers (n - 1))
       (split_comma sel)"

datatype run_result =
  WaitingForVersions
  | Plotted "string list" "mem_point list \<times> cpu_point list"
  | Uncaught exn

text \<open>One pass of the \<^verbatim>\<open>while True\<close> loop of \<^verbatim>\<open>run\<close>.\<close>

definition run_iteration :: "store \<Rightarrow> string \<Rightarrow> run_result" where
  "run_iteration st sel =
     (let vers = load_versions st
      in if vers = [] then WaitingForVersions
         else (case run_chosen vers sel of
                 Inl e \<Rightarrow> Uncaught e
               | Inr chosen \<Rightarrow> Plotted chosen (load_metrics st chosen)))"

section \<open>simple-db-sync-monitor.py\<close>

text \<open>
  The variant keyed by wall-clock timestamp. Its tables have a \<^verbatim>\<open>timestamp TEXT\<close> column
  in place of \<^verbatim>\<open>slot_no\<close> and a \<^verbatim>\<open>process TEXT\<close> column in place of \<^verbatim>\<open>version\<close>, and it
  keeps no version table.
\<close>

record s_memory_row =
  sm_timestamp :: string
  sm_rss :: "real option"
  sm_vms :: "real option"
  sm_uss :: "real option"
  sm_pss :: "real option"
  sm_swap :: "real option"
  sm_shared :: "real option"
  sm_process :: string

record s_cpu_row =
  sc_timestamp :: string
  sc_cpu_percent :: "real option"
  sc_user_time :: "real option"
  sc_system_time :: "real option"
  sc_children_user :: "real option"
  sc_children_system :: "real option"
  sc_iowait :: "real option"
  sc_ctx_switches :: "int option"
  sc_interrupts :: "int option"
  sc_process :: string

record s_store =
  s_memory_metrics :: "s_memory_row list"
  s_cpu_metrics :: "s_cpu_row list"

record s_memory_details =
  smem_rss :: real
  smem_vms :: real
  smem_uss :: "real option"
  smem_pss :: "real option"
  smem_swap :: "real option"
  smem_shared :: real

record s_cpu_details =
  scpu_percent :: real
  scpu_percent_normalized :: real
  scpu_user_time :: real
  scpu_system_time :: real
  scpu_children_user :: real
  scpu_children_system :: real
  scpu_iowait :: "real option"
  scpu_ctx_switches :: int
  scpu_interrupts :: "int option"

text \<open>
  The extractors of this variant catch \<^verbatim>\<open>(psutil.NoSuchProcess, psutil.AccessDenied,
  AttributeError)\<close> only. A call returns its dictionary, returns None after one of these
  three, or lets another exception through.
\<close>

datatype 'a attempt = Returned 'a | ReturnedNone exn | Propagated exn

definition handled :: "exn \<Rightarrow> bool" where
  "handled x = (x = NoSuchProcess \<or> x = AccessDenied \<or> x = AttributeError)"

definition on_error :: "exn \<Rightarrow> 'a attempt" where
  "on_error x = (if handled x then ReturnedNone x else Propagated x)"

definition value_of :: "'a attempt \<Rightarrow> 'a option" where
  "value_of a = (case a of Returned v \<Rightarrow> Some v | _ \<Rightarrow> None)"


text \<open>
  \<^verbatim>\<open>get_memory_details\<close>: \<^verbatim>\<open>uss\<close>, \<^verbatim>\<open>pss\<close> and \<^verbatim>\<open>swap\<close> are guarded by \<^verbatim>\<open>hasattr\<close> and
  become None when missing; \<^verbatim>\<open>mem_info.shared\<close> is read unguarded, so a tuple without it
  raises AttributeError, which is caught.
\<close>

definition simple_get_memory_details :: "process \<Rightarrow> s_memory_details attempt" where
  "simple_get_memory_details p =
     (case proc_memory_info p of
        Inl x \<Rightarrow> on_error x
      | Inr mem_info \<Rightarrow>
         (case proc_memory_full_info p of
            Inl x \<Rightarrow> on_error x
          | Inr mem_full \<Rightarrow>
             (case mi_shared mem_info of
                None \<Rightarrow> on_error AttributeError
              | Some sh \<Rightarrow> Returned
                  \<lparr>smem_rss = real_of_int (mi_rss mem_info) / 1024 / 1024,
                   smem_vms = real_of_int (mi_vms mem_info) / 1024 / 1024,
                   smem_uss = map_option (\<lambda>b. real_of_int b / 1024 / 1024) (mfi_uss mem_full),
                   smem_pss = map_option (\<lambda>b. real_of_int b / 1024 / 1024) (mfi_pss mem_full),
                   smem_swap = map_option (\<lambda>b. real_of_int b / 1024 / 1024) (mfi_swap mem_full),
                   smem_shared = real_of_int sh / 1024 / 1024\<rparr>)))"

text \<open>
  \<^verbatim>\<open>get_cpu_details\<close>; \<^verbatim>\<open>cpu_count = psutil.cpu_count() or 1\<close> reads None and 0 as 1.
\<close>

definition simple_get_cpu_details :: "nat option \<Rightarrow> process \<Rightarrow> s_cpu_details attempt" where
  "simple_get_cpu_details n_cpus p =
     (case proc_cpu_times p of
        Inl x \<Rightarrow> on_error x
      | Inr cpu_tms \<Rightarrow>
         (case proc_cpu_percent p of
            Inl x \<Rightarrow> on_error x
          | Inr percent \<Rightarrow>
             (let cpu_count = (case n_cpus of None \<Rightarrow> 1 | Some c \<Rightarrow> if c = 0 then 1 else c)
              in (case proc_num_ctx_switches p of
                    Inl x \<Rightarrow> on_error x
                  | Inr ctx \<Rightarrow> Returned
                      \<lparr>scpu_percent = percent,
                       scpu_percent_normalized = percent / real cpu_count,
                       scpu_user_time = t_user cpu_tms,
                       scpu_system_time = t_system cpu_tms,
                       scpu_children_user = getattr (t_children_user cpu_tms) 0,
                       scpu_children_system = getattr (t_children_system cpu_tms) 0,
                       scpu_iowait = t_iowait cpu_tms,
                       scpu_ctx_switches = voluntary ctx + involuntary ctx,
                       scpu_interrupts = None\<rparr>))))"

definition s_memory_row_of :: "string \<Rightarrow> s_memory_details \<Rightarrow> s_memory_row" where
  "s_memory_row_of ts d =
     \<lparr>sm_timestamp = ts, sm_rss = Some (smem_rss d), sm_vms = Some (smem_vms d),
      sm_uss = smem_uss d, sm_pss = smem_pss d, sm_swap = smem_swap d,
      sm_shared = Some (smem_shared d), sm_process = ''cardano-db-sync''\<rparr>"

definition s_cpu_row_of :: "string \<Rightarrow> s_cpu_details \<Rightarrow> s_cpu_row" where
  "s_cpu_row_of ts d =
     \<lparr>sc_timestamp = ts, sc_cpu_percent = Some (scpu_percent d),
      sc_user_time = Some (scpu_user_time d), sc_system_time = Some (scpu_system_time d),
      sc_children_user = Some (scpu_children_user d),
      sc_children_system = Some (scpu_children_system d),
      sc_iowait = scpu_iowait d, sc_ctx_switches = Some (scpu_ctx_switches d),
      sc_interrupts = scpu_interrupts d, sc_process = ''cardano-db-sync''\<rparr>"

record s_tick_env =
  s_env_running :: bool
  s_env_now :: string
  s_env_processes :: "proc_entry list"
  s_env_cpu_count :: "nat option"

datatype s_event =
  ErrorCollectingCpu exn
  | SimpleStatus string "real option" "real option"
  | SimpleSleep nat

text \<open>
  One pass of the loop body of this variant's \<^verbatim>\<open>log_metrics\<close>. The status line is
  printed inside \<^verbatim>\<open>if proc:\<close>; the sleep follows in every case.
\<close>

definition simple_tick :: "s_tick_env \<Rightarrow> s_store \<Rightarrow> s_store \<times> s_event list \<times> exn option" where
  "simple_tick e st =
     (let timestamp = s_env_now e
      in (case get_process (s_env_processes e) of
            None \<Rightarrow> (st, [SimpleSleep 10], None)
          | Some proc \<Rightarrow>
             (case simple_get_memory_details proc of
                Propagated x \<Rightarrow> (st, [], Some x)
              | mem_r \<Rightarrow>
                 (case simple_get_cpu_details (s_env_cpu_count e) proc of
                    Propagated x \<Rightarrow> (st, [], Some x)
                  | cpu_r \<Rightarrow>
                     (let mem_data = value_of mem_r;
                          cpu_data = value_of cpu_r;
                          st1 = (case mem_data of None \<Rightarrow> st
                                 | Some d \<Rightarrow> st\<lparr>s_memory_metrics :=
                                     s_memory_metrics st @ [s_memory_row_of timestamp d]\<rparr>);
                          st2 = (case cpu_data of None \<Rightarrow> st1
                                 | Some d \<Rightarrow> st1\<lparr>s_cpu_metrics :=
                                     s_cpu_metrics st1 @ [s_cpu_row_of timestamp d]\<rparr>)
                      in (st2,
                          (case cpu_r of ReturnedNone x \<Rightarrow> [ErrorCollectingCpu x] | _ \<Rightarrow> [])
                          @ [SimpleStatus timestamp (map_option scpu_percent cpu_data)
                               (map_option smem_rss mem_data),
                             SimpleSleep 10],
                          None))))))"

fun simple_log_loop :: "s_tick_env list \<Rightarrow> s_store \<Rightarrow> s_store \<times> s_event list \<times> status" where
  "simple_log_loop [] st = (st, [], Pending)"
| "simple_log_loop (e # es) st =
     (if \<not> s_env_running e then (st, [], Stopped)
      else (case simple_tick e st of
              (st', evs, Some x) \<Rightarrow> (st', evs, Raised x)
            | (st', evs, None) \<Rightarrow>
                (case simple_log_loop es st' of (st'', evs', r) \<Rightarrow> (st'', evs @ evs', r))))"

definition simple_log_metrics :: "proc_entry list \<Rightarrow> s_tick_env list \<Rightarrow> s_store
    \<Rightarrow> s_store \<times> s_event list \<times> status" where
  "simple_log_metrics procs0 envs st =
     (case get_process procs0 of
        None \<Rightarrow> simple_log_loop envs st
      | Some p \<Rightarrow>
         (case proc_cpu_percent p of
            Inl x \<Rightarrow> (st, [], Raised x)
          | Inr _ \<Rightarrow> simple_log_loop envs st))"

definition s_empty_store :: s_store where
  "s_empty_store = \<lparr>s_memory_metrics = [], s_cpu_metrics = []\<rparr>"

text \<open>This variant's \<^verbatim>\<open>init_db\<close>, again \<^verbatim>\<open>CREATE TABLE IF NOT EXISTS\<close>.\<close>

definition simple_init_db :: "s_store option \<Rightarrow> s_store" where
  "simple_init_db f = (case f of None \<Rightarrow> s_empty_store | Some st \<Rightarrow> st)"

text \<open>
  The two queries of this variant's \<^verbatim>\<open>plot_metrics\<close>:
  \<^verbatim>\<open>SELECT timestamp, rss, vms, uss, pss, swap, shared FROM memory_metrics
    WHERE datetime(timestamp) >= datetime('now', '-24 hours')\<close>
  and
  \<^verbatim>\<open>SELECT timestamp, cpu_percent, user_time, system_time, iowait, ctx_switches,
    interrupts FROM cpu_metrics WHERE ...\<close> with the same condition. There is no ORDER BY:
  the rows come in rowid order. SQLite's \<^verbatim>\<open>datetime\<close> is a parameter: \<open>datetime ts\<close> is
  the text it makes of a timestamp, None (NULL) for a text it cannot read as a time, and
  \<open>since\<close> is the text it makes of \<^verbatim>\<open>'now', '-24 hours'\<close>. Two texts are compared as TEXT,
  and a comparison with NULL selects nothing. A NULL of a row comes back as a missing
  value of the frame, again None.
\<close>

type_synonym s_mem_point =
  "string \<times> real option \<times> real option \<times> real option \<times> real option \<times> real option \<times> real option"

type_synonym s_cpu_point =
  "string \<times> real option \<times> real option \<times> real option \<times> real option \<times> int option \<times> int option"

definition in_window :: "(string \<Rightarrow> string option) \<Rightarrow> string \<Rightarrow> string \<Rightarrow> bool" where
  "in_window datetime since ts = (case datetime ts of None \<Rightarrow> False | Some d \<Rightarrow> since \<le> d)"

definition simple_mem_df :: "(string \<Rightarrow> string option) \<Rightarrow> string \<Rightarrow> s_store
    \<Rightarrow> s_mem_point list" where
  "simple_mem_df datetime since st =
     map (\<lambda>r. (sm_timestamp r, sm_rss r, sm_vms r, sm_uss r, sm_pss r, sm_swap r, sm_shared r))
       (filter (\<lambda>r. in_window datetime since (sm_timestamp r)) (s_memory_metrics st))"

definition simple_cpu_df :: "(string \<Rightarrow> string option) \<Rightarrow> string \<Rightarrow> s_store
    \<Rightarrow> s_cpu_point list" where
  "simple_cpu_df datetime since st =
     map (\<lambda>r. (sc_timestamp r, sc_cpu_percent r, sc_user_time r, sc_system_time r,
                sc_iowait r, sc_ctx_switches r, sc_interrupts r))
       (filter (\<lambda>r. in_window datetime since (sc_timestamp r)) (s_cpu_metrics st))"

text \<open>
  \<^verbatim>\<open>plot_metrics\<close> up to the drawing: with an empty frame it prints
  \<^verbatim>\<open>Not enough data to visualize\<close> and returns.
\<close>

datatype simple_plot = NotEnoughData | Drawn "s_mem_point list" "s_cpu_point list"

definition simple_plot_metrics :: "(string \<Rightarrow> string option) \<Rightarrow> string \<Rightarrow> s_store
    \<Rightarrow> simple_plot" where
  "simple_plot_metrics datetime since st =
     (let mem_df = simple_mem_df datetime since st;
          cpu_df = simple_cpu_df datetime since st
      in if mem_df = [] \<or> cpu_df = [] then NotEnoughData else Drawn mem_df cpu_df)"

section \<open>Reading the version log\<close>

text \<open>
  The timestamp of the first inserted record of a tag, and of its last inserted record
  (the empty string for a tag that has no record).
\<close>

definition first_timestamp :: "store \<Rightarrow> string \<Rightarrow> string" where
  "first_timestamp st v =
     (case find (\<lambda>r. v_version r = v) (db_sync_version st) of
        None \<Rightarrow> [] | Some r \<Rightarrow> v_timestamp r)"

definition latest_timestamp :: "store \<Rightarrow> string \<Rightarrow> string" where
  "latest_timestamp st v =
     (case find (\<lambda>r. v_version r = v) (rev (db_sync_version st)) of
        None \<Rightarrow> [] | Some r \<Rightarrow> v_timestamp r)"

text \<open>
  The specification's reading of the order of the listing: most recent first, a tag
  being as recent as the last time it was recorded.
\<close>

definition spec_most_recent_first :: "store \<Rightarrow> string list \<Rightarrow> bool" where
  "spec_most_recent_first st vs =
     sorted_wrt (\<lambda>a b. latest_timestamp st b \<le> latest_timestamp st a) vs"

section \<open>Concrete inputs\<close>

definition ex_monitor :: monitor where
  "ex_monitor = \<lparr>env = ''preprod'', db_sync_ver = ''13.6.0.5''\<rparr>"

text \<open>
  A process on a platform whose memory tuples have neither \<^verbatim>\<open>shared\<close> nor \<^verbatim>\<open>uss\<close>,
  \<^verbatim>\<open>pss\<close>, \<^verbatim>\<open>swap\<close> and whose CPU times have no \<^verbatim>\<open>iowait\<close>: 100 MiB resident, 200 MiB
  virtual.
\<close>

definition ex_process :: process where
  "ex_process =
     \<lparr>proc_memory_info = Inr \<lparr>mi_rss = 104857600, mi_vms = 209715200, mi_shared = None\<rparr>,
      proc_memory_full_info = Inr \<lparr>mfi_uss = None, mfi_pss = None, mfi_swap = None\<rparr>,
      proc_cpu_times = Inr \<lparr>t_user = 3, t_system = 1, t_children_user = Some 0,
        t_children_system = Some 0, t_iowait = None\<rparr>,
      proc_cpu_percent = Inr 25,
      proc_num_ctx_switches = Inr \<lparr>voluntary = 10, involuntary = 2\<rparr>\<rparr>"


definition ex_processes :: "proc_entry list" where
  "ex_processes =
     [\<lparr>info_cmdline = None, handle = ex_process\<rparr>,
      \<lparr>info_cmdline = Some [''/usr/bin/cardano-db-sync'', ''--config'', ''db-sync.yaml''],
       handle = ex_process\<rparr>]"

definition ex_other_processes :: "proc_entry list" where
  "ex_other_processes =
     [\<lparr>info_cmdline = Some [''/usr/bin/postgres'', ''-D'', ''/var/lib/postgresql''],
       handle = ex_process\<rparr>]"

text \<open>
  Passes of the loop: one where the progress query fails, one where the slot is known,
  the process runs and the sync percentage is not available, one where the slot is known,
  no process matches and the sync percentage is not available, and one where everything
  is available.
\<close>

definition ex_env_no_slot :: tick_env where
  "ex_env_no_slot =
     \<lparr>env_running = True, env_slot_no = None, env_processes = ex_processes,
      env_sync_percent = Some 42, env_now = ''2025-05-01T10:00:00.000001''\<rparr>"

definition ex_env_no_sync :: tick_env where
  "ex_env_no_sync =
     \<lparr>env_running = True, env_slot_no = Some 5, env_processes = ex_processes,
      env_sync_percent = None, env_now = ''2025-05-01T10:00:10.000001''\<rparr>"

definition ex_env_not_found :: tick_env where
  "ex_env_not_found =
     \<lparr>env_running = True, env_slot_no = Some 5, env_processes = ex_other_processes,
      env_sync_percent = None, env_now = ''2025-05-01T10:00:20.000001''\<rparr>"

definition ex_env_ok :: tick_env where
  "ex_env_ok =
     \<lparr>env_running = True, env_slot_no = Some 7, env_processes = ex_processes,
      env_sync_percent = Some 42, env_now = ''2025-05-01T10:00:30.000001''\<rparr>"

text \<open>
  A version log: \<open>v1\<close> is recorded, then \<open>v2\<close>, then \<open>v1\<close> again, with increasing
  timestamps.
\<close>

definition ex_version_log :: store where
  "ex_version_log =
     insert_db_sync_version \<lparr>v_timestamp = ''2025-05-03T10:00:00.000001'', v_version = ''v1''\<rparr>
       (insert_db_sync_version \<lparr>v_timestamp = ''2025-05-02T10:00:00.000001'', v_version = ''v2''\<rparr>
         (insert_db_sync_version \<lparr>v_timestamp = ''2025-05-01T10:00:00.000001'', v_version = ''v1''\<rparr>
           (init_db None)))"






text \<open>
  Statements with two memory rows of the same slot and tag, a cpu row between them and a
  memory row of another tag, all carried out; and two statements of which the second
  meets a locked file.
\<close>

definition ex_memory_row :: "int \<Rightarrow> real \<Rightarrow> string \<Rightarrow> memory_row" where
  "ex_memory_row slot rss ver =
     \<lparr>m_slot_no = slot, m_rss = Some rss, m_vms = Some 200, m_uss = Some 0, m_pss = Some 0,
      m_swap = Some 0, m_shared = Some 0, m_version = ver\<rparr>"

definition ex_cpu_row :: "int \<Rightarrow> real \<Rightarrow> string \<Rightarrow> cpu_row" where
  "ex_cpu_row slot pct ver =
     \<lparr>c_slot_no = slot, c_cpu_percent = Some pct, c_user_time = Some 3,
      c_system_time = Some 1, c_children_user = Some 0, c_children_system = Some 0,
      c_iowait = Some 0, c_ctx_switches = Some 12, c_interrupts = None, c_version = ver\<rparr>"

definition ex_statements :: "(sqlite_result \<times> insert_stmt) list" where
  "ex_statements =
     [(Completed, InsertMemory (ex_memory_row 7 200 ''v2'')),
      (Completed, InsertMemory (ex_memory_row 5 100 ''v1'')),
      (Completed, InsertCpu (ex_cpu_row 5 25 ''v1'')),
      (Completed, InsertMemory (ex_memory_row 5 101 ''v1''))]"

definition ex_statements_locked :: "(sqlite_result \<times> insert_stmt) list" where
  "ex_statements_locked =
     [(Completed, InsertMemory (ex_memory_row 5 100 ''v1'')),
      (Failed, InsertMemory (ex_memory_row 5 101 ''v1''))]"

section \<open>Properties of the store\<close>

lemma execute_inserts_completed:
  "list_all (\<lambda>x. fst x = Completed) ops \<Longrightarrow>
     \<exists>st'. execute_inserts ops st = Inr st'
       \<and> memory_metrics st' = memory_metrics st @ appended_memory (map snd ops)
       \<and> cpu_metrics st' = cpu_metrics st @ appended_cpu (map snd ops)"
proof (induction ops arbitrary: st)
  case Nil
  then show ?case by simp
next
  case (Cons op ops)
  obtain res stmt where op: "op = (res, stmt)" by (cases op)
  with Cons.prems have res: "res = Completed" and rest: "list_all (\<lambda>x. fst x = Completed) ops"
    by simp_all
  show ?case
  proof (cases stmt)
    case (InsertMemory r)
    with Cons.IH [OF rest, of "insert_memory_metrics r st"] op res show ?thesis
      by (auto simp: execute_insert_def insert_memory_metrics_def)
  next
    case (InsertCpu r)
    with Cons.IH [OF rest, of "insert_cpu_metrics r st"] op res show ?thesis
      by (auto simp: execute_insert_def insert_cpu_metrics_def)
  next
    case (InsertVersion r)
    with Cons.IH [OF rest, of "insert_db_sync_version r st"] op res show ?thesis
      by (auto simp: execute_insert_def insert_db_sync_version_def)
  qed
qed

text \<open>
  The store that a pass of the sampling loop leaves is the one its statements give when
  the engine carries out each of them.
\<close>

lemma tick_runs_its_statements:
  "execute_inserts (map (Pair Completed) (tick_statements m e)) st = Inr (fst (tick m e st))"
  by (simp add: tick_def tick_statements_def Let_def execute_insert_def format_2f_def
      split: option.splits)

text \<open>
  C8, as amended. Take any store and any list of memory, cpu and version inserts, in any
  order, of any rows (none of a kind, or several rows of one slot). If the engine
  carries out every statement, no statement raises, and the two frames loaded for a list
  of tags are the rows the store had and the rows appended, in that order, restricted to
  the requested tags, reduced to slot, value and tag, and sorted by slot: each such row
  once for each time it was appended, and no other row. A fresh store has no rows, so
  there the frames hold exactly the appended rows.
\<close>

theorem appends_accepted_and_loaded:
  assumes "list_all (\<lambda>x. fst x = Completed) ops"
  shows "\<exists>st'. execute_inserts ops st = Inr st'
    \<and> fst (load_metrics st' tags)
        = sort_key fst (map (\<lambda>r. (m_slot_no r, m_rss r, m_version r))
            (filter (\<lambda>r. m_version r \<in> set tags)
              (memory_metrics st @ appended_memory (map snd ops))))
    \<and> snd (load_metrics st' tags)
        = sort_key fst (map (\<lambda>r. (c_slot_no r, c_cpu_percent r, c_version r))
            (filter (\<lambda>r. c_version r \<in> set tags)
              (cpu_metrics st @ appended_cpu (map snd ops))))
    \<and> mset (fst (load_metrics st' tags))
        = mset (map (\<lambda>r. (m_slot_no r, m_rss r, m_version r))
            (filter (\<lambda>r. m_version r \<in> set tags)
              (memory_metrics st @ appended_memory (map snd ops))))
    \<and> mset (snd (load_metrics st' tags))
        = mset (map (\<lambda>r. (c_slot_no r, c_cpu_percent r, c_version r))
            (filter (\<lambda>r. c_version r \<in> set tags)
              (cpu_metrics st @ appended_cpu (map snd ops))))"
proof -
  from execute_inserts_completed [OF assms, of st] obtain st' where
    st': "execute_inserts ops st = Inr st'"
      "memory_metrics st' = memory_metrics st @ appended_memory (map snd ops)"
      "cpu_metrics st' = cpu_metrics st @ appended_cpu (map snd ops)"
    by blast
  have m: "mem_point_of = (\<lambda>r. (m_slot_no r, m_rss r, m_version r))"
    and c: "cpu_point_of = (\<lambda>r. (c_slot_no r, c_cpu_percent r, c_version r))"
    by (simp_all add: fun_eq_iff mem_point_of_def cpu_point_of_def)
  have "fst (load_metrics st' tags)
        = sort_key fst (map (\<lambda>r. (m_slot_no r, m_rss r, m_version r))
            (filter (\<lambda>r. m_version r \<in> set tags)
              (memory_metrics st @ appended_memory (map snd ops))))"
    and "snd (load_metrics st' tags)
        = sort_key fst (map (\<lambda>r. (c_slot_no r, c_cpu_percent r, c_version r))
            (filter (\<lambda>r. c_version r \<in> set tags)
              (cpu_metrics st @ appended_cpu (map snd ops))))"
    by (simp_all only: load_metrics_def qm_def qc_def st'(2,3) m c fst_conv snd_conv)
  with st'(1) show ?thesis by simp
qed

theorem appends_accepted_and_loaded_witness:
  "list_all (\<lambda>x. fst x = Completed) ex_statements
   \<and> map_sum id (\<lambda>st'. load_metrics st' [''v1'']) (execute_inserts ex_statements (init_db None))
       = Inr ([(5, Some 100, ''v1''), (5, Some 101, ''v1'')], [(5, Some 25, ''v1'')])"
proof -
  have h: "list_all (\<lambda>x. fst x = Completed) ex_statements"
    by (simp add: ex_statements_def)
  from appends_accepted_and_loaded [OF h, of "init_db None" "[''v1'']"] obtain st' where
    "execute_inserts ex_statements (init_db None) = Inr st'"
    "fst (load_metrics st' [''v1''])
        = sort_key fst (map (\<lambda>r. (m_slot_no r, m_rss r, m_version r))
            (filter (\<lambda>r. m_version r \<in> set [''v1''])
              (memory_metrics (init_db None) @ appended_memory (map snd ex_statements))))"
    "snd (load_metrics st' [''v1''])
        = sort_key fst (map (\<lambda>r. (c_slot_no r, c_cpu_percent r, c_version r))
            (filter (\<lambda>r. c_version r \<in> set [''v1''])
              (cpu_metrics (init_db None) @ appended_cpu (map snd ex_statements))))"
    by blast
  then have "execute_inserts ex_statements (init_db None) = Inr st'
      \<and> load_metrics st' [''v1'']
          = ([(5, Some 100, ''v1''), (5, Some 101, ''v1'')], [(5, Some 25, ''v1'')])"
    by (simp add: prod_eq_iff ex_statements_def ex_memory_row_def ex_cpu_row_def init_db_def
        empty_store_def)
  with h show ?thesis by simp
qed

text \<open>
  C8 as stated fails when the engine cannot carry out a statement: the second of two
  appends meets a locked file and raises \<^verbatim>\<open>sqlite3.OperationalError\<close>.
\<close>

theorem append_raises_on_locked_file_counterexample:
  "execute_inserts ex_statements_locked (init_db None) = Inl OperationalError"
  by (simp add: ex_statements_locked_def execute_insert_def)

text \<open>
  C9. Loading the series for the empty tag list gives two empty frames; the load is a
  total function, so there is no error.
\<close>

theorem load_metrics_empty_tags:
  "load_metrics st [] = ([], [])"
  by (simp add: load_metrics_def qm_def qc_def)

lemma sorted_trace_of:
  "sorted (map fst df) \<Longrightarrow> sorted (map fst (trace_of v df))"
  unfolding trace_of_def by (rule sorted_filter)

lemma stable_trace_of:
  "filter (\<lambda>p. fst p = k) (trace_of v (sort_key fst xs))
     = filter (\<lambda>p. fst p = k) (trace_of v xs)"
proof -
  have "filter (\<lambda>p. fst p = k) (trace_of v (sort_key fst xs))
          = trace_of v (filter (\<lambda>p. fst p = k) (sort_key fst xs))"
    unfolding trace_of_def by (simp add: conj_commute)
  also have "\<dots> = trace_of v (filter (\<lambda>p. fst p = k) xs)"
    by (simp only: sort_key_stable)
  also have "\<dots> = filter (\<lambda>p. fst p = k) (trace_of v xs)"
    unfolding trace_of_def by (simp add: conj_commute)
  finally show ?thesis .
qed

text \<open>
  C7. For every store (so for the store left by any sequence of ticks), every list of
  requested tags and every tag \<open>v\<close>: both loaded frames are in non-decreasing order of
  \<^verbatim>\<open>slot_no\<close>, so is the trace of \<open>v\<close> cut from either frame, and within a trace the rows
  of one key \<open>k\<close> are the table's rows of that tag and key in insertion order.
\<close>

theorem load_metrics_ordered:
  "sorted (map fst (fst (load_metrics st tags)))
   \<and> sorted (map fst (snd (load_metrics st tags)))
   \<and> sorted (map fst (trace_of v (fst (load_metrics st tags))))
   \<and> sorted (map fst (trace_of v (snd (load_metrics st tags))))
   \<and> filter (\<lambda>p. fst p = k) (trace_of v (fst (load_metrics st tags)))
       = filter (\<lambda>p. fst p = k) (trace_of v (map mem_point_of
           (filter (\<lambda>r. m_version r \<in> set tags) (memory_metrics st))))
   \<and> filter (\<lambda>p. fst p = k) (trace_of v (snd (load_metrics st tags)))
       = filter (\<lambda>p. fst p = k) (trace_of v (map cpu_point_of
           (filter (\<lambda>r. c_version r \<in> set tags) (cpu_metrics st))))"
proof -
  have m: "sorted (map fst (qm tags st))" and c: "sorted (map fst (qc tags st))"
    by (simp_all add: qm_def qc_def)
  show ?thesis
    using m c sorted_trace_of [OF m, of v] sorted_trace_of [OF c, of v]
    by (simp add: load_metrics_def) (simp add: qm_def qc_def stable_trace_of)
qed

section \<open>Properties of the version listing\<close>

lemma first_of_each_versions:
  "v_version ` set (first_of_each seen rs) = v_version ` set rs - set seen"
  by (induction rs arbitrary: seen) auto

lemma first_of_each_distinct:
  "distinct (map v_version (first_of_each seen rs))"
  by (induction rs arbitrary: seen) (auto simp: first_of_each_versions)

lemma first_of_each_find:
  "r \<in> set (first_of_each seen rs) \<Longrightarrow> find (\<lambda>x. v_version x = v_version r) rs = Some r"
proof (induction rs arbitrary: seen)
  case Nil
  then show ?case by simp
next
  case (Cons r0 rs)
  show ?case
  proof (cases "v_version r0 \<in> set seen")
    case True
    with Cons.prems have mem: "r \<in> set (first_of_each seen rs)" by simp
    then have "v_version r \<in> v_version ` set (first_of_each seen rs)" by blast
    then have "v_version r \<notin> set seen" by (simp add: first_of_each_versions)
    with True have "v_version r0 \<noteq> v_version r" by auto
    with Cons.IH [OF mem] show ?thesis by simp
  next
    case False
    with Cons.prems have "r = r0 \<or> r \<in> set (first_of_each (v_version r0 # seen) rs)"
      by auto
    then show ?thesis
    proof
      assume "r = r0"
      then show ?thesis by simp
    next
      assume mem: "r \<in> set (first_of_each (v_version r0 # seen) rs)"
      then have "v_version r \<in> v_version ` set (first_of_each (v_version r0 # seen) rs)"
        by blast
      then have "v_version r0 \<noteq> v_version r" by (auto simp: first_of_each_versions)
      with Cons.IH [OF mem] show ?thesis by simp
    qed
  qed
qed

lemma order_by_timestamp_desc_set:
  "set (order_by_timestamp_desc rs) = set rs"
  by (simp add: order_by_timestamp_desc_def)

lemma order_by_timestamp_desc_sorted:
  "sorted_wrt (\<lambda>x y. v_timestamp y \<le> v_timestamp x) (order_by_timestamp_desc rs)"
proof -
  have "sorted (map v_timestamp (sort_key v_timestamp (rev rs)))" by simp
  then have "sorted_wrt (\<lambda>x y. v_timestamp x \<le> v_timestamp y) (sort_key v_timestamp (rev rs))"
    by (simp add: sorted_map)
  then show ?thesis
    by (simp add: order_by_timestamp_desc_def sorted_wrt_rev)
qed

text \<open>
  What the listing does give for every version log: every tag that has a version record
  and no other, each once, in descending order of the timestamp of the record that
  represents the tag in the query, which is the first one inserted.
\<close>

theorem load_versions_first_recorded_order:
  "distinct (load_versions st)
   \<and> set (load_versions st) = v_version ` set (db_sync_version st)
   \<and> sorted_wrt (\<lambda>a b. first_timestamp st b \<le> first_timestamp st a) (load_versions st)"
proof -
  let ?fr = "first_of_each [] (db_sync_version st)"
  have d: "distinct (load_versions st)"
  proof -
    have "mset (order_by_timestamp_desc ?fr) = mset ?fr"
      by (simp add: order_by_timestamp_desc_def)
    then have "mset (map v_version (order_by_timestamp_desc ?fr)) = mset (map v_version ?fr)"
      by simp
    then show ?thesis
      unfolding load_versions_def
      using first_of_each_distinct [of "[]" "db_sync_version st"]
      by (metis mset_eq_imp_distinct_iff)
  qed
  have s: "set (load_versions st) = v_version ` set (db_sync_version st)"
    using first_of_each_versions [of "[]" "db_sync_version st"]
    by (simp add: load_versions_def order_by_timestamp_desc_set)
  have key: "first_timestamp st (v_version r) = v_timestamp r"
    if "r \<in> set (order_by_timestamp_desc ?fr)" for r
    using that first_of_each_find [of r "[]" "db_sync_version st"]
    by (simp add: order_by_timestamp_desc_set first_timestamp_def)
  have "sorted_wrt (\<lambda>x y. first_timestamp st (v_version y) \<le> first_timestamp st (v_version x))
          (order_by_timestamp_desc ?fr)"
    using order_by_timestamp_desc_sorted [of ?fr]
    by (rule sorted_wrt_mono_rel [rotated]) (simp add: key)
  then have o: "sorted_wrt (\<lambda>a b. first_timestamp st b \<le> first_timestamp st a) (load_versions st)"
    by (simp add: load_versions_def sorted_wrt_map)
  from d s o show ?thesis by simp
qed

text \<open>
  C2, at an input where the code departs from it. The log records \<open>v1\<close>, then \<open>v2\<close>, then
  \<open>v1\<close> again. The query orders by descending timestamp, and \<open>v1\<close> holds the most recent
  timestamp of the log, yet the listing is \<open>[v2, v1]\<close>: it is not most-recent-first.
\<close>

theorem load_versions_lists_latest_tag_last:
  "load_versions ex_version_log = [''v2'', ''v1'']
   \<and> latest_timestamp ex_version_log ''v2'' = ''2025-05-02T10:00:00.000001''
   \<and> latest_timestamp ex_version_log ''v1'' = ''2025-05-03T10:00:00.000001''
   \<and> \<not> spec_most_recent_first ex_version_log (load_versions ex_version_log)"
  by (simp add: load_versions_def order_by_timestamp_desc_def ex_version_log_def
      insert_db_sync_version_def init_db_def empty_store_def latest_timestamp_def
      spec_most_recent_first_def)

section \<open>Properties of the selection\<close>

lemma comprehension_Inl:
  "x \<in> set xs \<Longrightarrow> f x = Inl e \<Longrightarrow> \<exists>e'. comprehension f xs = Inl e'"
  by (induction xs) (auto split: sum.splits)

lemma comprehension_Inr:
  "comprehension f xs = Inr ys \<Longrightarrow> x \<in> set xs \<Longrightarrow> \<exists>y\<in>set ys. f x = Inr y"
  by (induction xs arbitrary: ys) (auto split: sum.splits)

lemma py_index_Inl:
  "i < - int (length xs) \<or> int (length xs) \<le> i \<Longrightarrow> py_index xs i = Inl IndexError"
  by (auto simp: py_index_def Let_def)

lemma py_index_Inr:
  "- int (length xs) \<le> i \<Longrightarrow> i < int (length xs) \<Longrightarrow> \<exists>v. py_index xs i = Inr v"
  by (auto simp: py_index_def Let_def)

text \<open>
  What both scripts do reject: a selection with a piece that is no numeral, or whose
  number is above the length of the list or not above its negation, selects nothing.
\<close>

lemma main_chosen_rejects:
  assumes x: "x \<in> set (split_comma sel)"
    and bad: "py_int (strip x) = Inl ValueError
              \<or> (\<exists>n. py_int (strip x) = Inr n
                    \<and> (n \<le> - int (length versions) \<or> int (length versions) < n))"
  shows "\<exists>e. main_chosen versions sel = Inl e"
proof (cases "comprehension (\<lambda>x. map_sum id (\<lambda>n. n - 1) (py_int (strip x))) (split_comma sel)")
  case (Inl e)
  then show ?thesis by (simp add: main_chosen_def)
next
  case (Inr idxs)
  from comprehension_Inr [OF Inr x] obtain i where
    i: "i \<in> set idxs" "map_sum id (\<lambda>n. n - 1) (py_int (strip x)) = Inr i"
    by blast
  then obtain n where n: "py_int (strip x) = Inr n" "i = n - 1"
    by (cases "py_int (strip x)") auto
  with bad have "i < - int (length versions) \<or> int (length versions) \<le> i" by auto
  then have "py_index versions i = Inl IndexError" by (rule py_index_Inl)
  from comprehension_Inl [of i idxs "py_index versions" IndexError, OF i(1) this]
  obtain e where "comprehension (py_index versions) idxs = Inl e" ..
  with Inr show ?thesis by (simp add: main_chosen_def)
qed

lemma run_chosen_rejects:
  assumes x: "x \<in> set (split_comma sel)"
    and bad: "py_int x = Inl ValueError
              \<or> (\<exists>n. py_int x = Inr n
                    \<and> (n \<le> - int (length vers) \<or> int (length vers) < n))"
  shows "\<exists>e. run_chosen vers sel = Inl e"
proof -
  let ?f = "\<lambda>i. case py_int i of Inl e \<Rightarrow> Inl e | Inr n \<Rightarrow> py_index vers (n - 1)"
  have "\<exists>e. ?f x = Inl e"
    using bad by (auto simp: py_index_def Let_def)
  then obtain e where "?f x = Inl e" ..
  from comprehension_Inl [of x "split_comma sel" ?f e, OF x this]
  show ?thesis by (simp add: run_chosen_def)
qed

text \<open>
  C3, at inputs where the code departs from it. The listing is \<open>[v2, v1]\<close>. The
  selection \<^verbatim>\<open>0\<close> is outside 1..2, yet \<^verbatim>\<open>main\<close> and \<^verbatim>\<open>run\<close> both take it as the last
  entry, and \<^verbatim>\<open>1,-1\<close> is taken as the first entry twice; in \<^verbatim>\<open>run\<close> the selections
  \<^verbatim>\<open>abc\<close> and \<^verbatim>\<open>1,3\<close> raise ValueError and IndexError, which nothing catches.
\<close>

theorem selection_failing_inputs:
  "load_versions ex_version_log = [''v2'', ''v1'']
   \<and> main ex_version_log ''0'' = Compared [''v1''] (load_metrics ex_version_log [''v1''])
   \<and> run_iteration ex_version_log ''0''
       = Plotted [''v1''] (load_metrics ex_version_log [''v1''])
   \<and> run_iteration ex_version_log ''1,-1''
       = Plotted [''v2'', ''v2''] (load_metrics ex_version_log [''v2'', ''v2''])
   \<and> run_iteration ex_version_log ''abc'' = Uncaught ValueError
   \<and> run_iteration ex_version_log ''1,3'' = Uncaught IndexError"
proof -
  have v: "load_versions ex_version_log = [''v2'', ''v1'']"
    by (simp add: load_versions_def order_by_timestamp_desc_def ex_version_log_def
      insert_db_sync_version_def init_db_def empty_store_def)
  show ?thesis
    by (simp add: v main_def run_iteration_def main_chosen_def run_chosen_def py_int_def
        strip_def strip_where_def is_space_def is_int_space_def is_digit_def
        digits_value_def py_index_def)
qed

section \<open>Properties of the sampling loop\<close>

lemma tick_no_slot: "env_slot_no e = None \<Longrightarrow> tick m e st = (st, [Sleep 10], None)"
  by (simp add: tick_def)

text \<open>
  C6. In a pass where \<^verbatim>\<open>get_slot_no\<close> yields no marker, the loop body leaves the store as
  it is (no memory row, no cpu row, no version record), sleeps 10 and raises nothing, and
  the loop goes on with the next pass from a store that is unchanged.
\<close>

theorem no_marker_skips_and_retries:
  "env_running e \<Longrightarrow> env_slot_no e = None \<Longrightarrow>
     tick m e st = (st, [Sleep 10], None)
     \<and> log_loop m (e # es) st =
         (case log_loop m es st of (st', evs, r) \<Rightarrow> (st', Sleep 10 # evs, r))"
  by (simp add: tick_no_slot split: prod.splits)

theorem no_marker_skips_and_retries_witness:
  "env_running ex_env_no_slot \<and> env_slot_no ex_env_no_slot = None
   \<and> log_loop ex_monitor [ex_env_no_slot] (init_db None) = (init_db None, [Sleep 10], Pending)"
proof -
  have r: "env_running ex_env_no_slot" and s: "env_slot_no ex_env_no_slot = None"
    by (simp_all add: ex_env_no_slot_def)
  show ?thesis
    using r s no_marker_skips_and_retries [OF r s, of ex_monitor "init_db None" "[]"]
    by simp
qed

text \<open>
  What a pass with a marker does: without a matching process it writes neither a memory
  nor a cpu row; it raises exactly when the sync percentage is missing, and then it is a
  TypeError; with a sync percentage it prints one status line and sleeps.
\<close>

lemma tick_not_found_no_sample:
  "get_process (env_processes e) = None \<Longrightarrow>
     memory_metrics (fst (tick m e st)) = memory_metrics st
     \<and> cpu_metrics (fst (tick m e st)) = cpu_metrics st"
  by (simp add: tick_def Let_def insert_db_sync_version_def format_2f_def
      split: option.splits)

lemma tick_raises_iff:
  "snd (snd (tick m e st)) = Some x
     \<longleftrightarrow> env_slot_no e \<noteq> None \<and> env_sync_percent e = None \<and> x = TypeError"
  by (auto simp: tick_def Let_def format_2f_def split: option.splits)

lemma tick_status_line:
  "env_slot_no e = Some slot \<Longrightarrow> env_sync_percent e = Some sp \<Longrightarrow>
     \<exists>cpu rss. snd (tick m e st) = ([Status slot sp cpu rss, Sleep 10], None)"
  by (simp add: tick_def Let_def format_2f_def)

text \<open>
  C4, at an input where the code departs from it. The pass knows the slot, finds the
  process and extracts both samples, but the sync percentage is not available: the
  memory row and the cpu row are written, then formatting the status line raises
  TypeError, no line is printed, and the loop ends there although a further pass was
  due.
\<close>

theorem status_line_raises_without_sync_percent:
  "env_slot_no ex_env_no_sync = Some 5
   \<and> env_sync_percent ex_env_no_sync = None
   \<and> length (memory_metrics (fst (tick ex_monitor ex_env_no_sync (init_db None)))) = 1
   \<and> length (cpu_metrics (fst (tick ex_monitor ex_env_no_sync (init_db None)))) = 1
   \<and> snd (tick ex_monitor ex_env_no_sync (init_db None)) = ([], Some TypeError)
   \<and> snd (log_loop ex_monitor [ex_env_no_sync, ex_env_ok] (init_db None))
       = ([], Raised TypeError)"
  by (simp add: tick_def Let_def format_2f_def ex_env_no_sync_def ex_processes_def
      ex_process_def get_memory_details_def get_cpu_details_def init_db_def empty_store_def
      insert_memory_metrics_def insert_cpu_metrics_def insert_db_sync_version_def)

text \<open>
  C5, at an input where the code departs from it. No process matches and the sync
  percentage is not available: no memory row and no cpu row is written, as claimed, but
  the pass raises TypeError at the status line and the loop does not reach the next pass.
\<close>

theorem not_found_tick_raises_without_sync_percent:
  "get_process (env_processes ex_env_not_found) = None
   \<and> env_slot_no ex_env_not_found = Some 5
   \<and> env_sync_percent ex_env_not_found = None
   \<and> memory_metrics (fst (tick ex_monitor ex_env_not_found (init_db None))) = []
   \<and> cpu_metrics (fst (tick ex_monitor ex_env_not_found (init_db None))) = []
   \<and> snd (tick ex_monitor ex_env_not_found (init_db None)) = ([], Some TypeError)
   \<and> snd (log_loop ex_monitor [ex_env_not_found, ex_env_ok] (init_db None))
       = ([], Raised TypeError)"
  by (simp add: tick_def Let_def format_2f_def ex_env_not_found_def ex_other_processes_def
      init_db_def empty_store_def insert_db_sync_version_def)

lemma tick_cpu_rows:
  "\<exists>new. cpu_metrics (fst (tick m e st)) = cpu_metrics st @ new
         \<and> list_all (\<lambda>r. c_interrupts r = None) new"
proof (cases "env_slot_no e")
  case None
  then show ?thesis by (simp add: tick_no_slot)
next
  case (Some slot)
  show ?thesis
  proof (cases "case get_process (env_processes e) of None \<Rightarrow> None | Some p \<Rightarrow> get_cpu_details p")
    case None
    with Some show ?thesis
      by (simp add: tick_def Let_def insert_memory_metrics_def insert_db_sync_version_def
          format_2f_def split: option.splits)
  next
    case (Some d)
    then have "cpu_interrupts d = None"
      by (auto simp: get_cpu_details_def split: option.splits sum.splits)
    with Some \<open>env_slot_no e = Some slot\<close> show ?thesis
      by (simp add: tick_def Let_def insert_memory_metrics_def insert_cpu_metrics_def
          insert_db_sync_version_def format_2f_def cpu_row_of_def split: option.splits)
  qed
qed

lemma log_loop_cpu_rows:
  "\<exists>new. cpu_metrics (fst (log_loop m es st)) = cpu_metrics st @ new
         \<and> list_all (\<lambda>r. c_interrupts r = None) new"
proof (induction es arbitrary: st)
  case Nil
  then show ?case by simp
next
  case (Cons e es)
  obtain st1 evs x where t: "tick m e st = (st1, evs, x)" by (cases "tick m e st") auto
  from tick_cpu_rows [of m e st] t obtain new1 where
    n1: "cpu_metrics st1 = cpu_metrics st @ new1" "list_all (\<lambda>r. c_interrupts r = None) new1"
    by auto
  from Cons.IH [of st1] obtain new2 where
    n2: "cpu_metrics (fst (log_loop m es st1)) = cpu_metrics st1 @ new2"
        "list_all (\<lambda>r. c_interrupts r = None) new2"
    by auto
  show ?case
  proof (cases "env_running e")
    case False
    then show ?thesis by simp
  next
    case True
    show ?thesis
    proof (cases x)
      case None
      with True t n1 n2 show ?thesis
        by (auto split: prod.splits)
    next
      case (Some ex)
      with True t n1 show ?thesis by auto
    qed
  qed
qed

lemma log_metrics_cpu_rows:
  "\<exists>new. cpu_metrics (fst (log_metrics m procs0 envs st)) = cpu_metrics st @ new
         \<and> list_all (\<lambda>r. c_interrupts r = None) new"
  using log_loop_cpu_rows [of m envs st]
  by (auto simp: log_metrics_def split: option.splits sum.splits)

lemma simple_get_cpu_details_interrupts:
  "simple_get_cpu_details n p = Returned d \<Longrightarrow> scpu_interrupts d = None"
  by (auto simp: simple_get_cpu_details_def on_error_def Let_def
      split: sum.splits if_splits)

lemma simple_tick_cpu_rows:
  "\<exists>new. s_cpu_metrics (fst (simple_tick e st)) = s_cpu_metrics st @ new
         \<and> list_all (\<lambda>r. sc_interrupts r = None) new"
proof (cases "get_process (s_env_processes e)")
  case None
  then show ?thesis by (simp add: simple_tick_def)
next
  case (Some p)
  show ?thesis
  proof (cases "simple_get_cpu_details (s_env_cpu_count e) p")
    case (Returned d)
    then have "scpu_interrupts d = None" by (rule simple_get_cpu_details_interrupts)
    with Some Returned show ?thesis
      by (cases "simple_get_memory_details p")
        (simp_all add: simple_tick_def Let_def value_of_def s_cpu_row_of_def)
  next
    case (ReturnedNone x)
    with Some show ?thesis
      by (cases "simple_get_memory_details p")
        (simp_all add: simple_tick_def Let_def value_of_def)
  next
    case (Propagated x)
    with Some show ?thesis
      by (cases "simple_get_memory_details p")
        (simp_all add: simple_tick_def Let_def value_of_def)
  qed
qed

lemma simple_log_loop_cpu_rows:
  "\<exists>new. s_cpu_metrics (fst (simple_log_loop es st)) = s_cpu_metrics st @ new
         \<and> list_all (\<lambda>r. sc_interrupts r = None) new"
proof (induction es arbitrary: st)
  case Nil
  then show ?case by simp
next
  case (Cons e es)
  obtain st1 evs x where t: "simple_tick e st = (st1, evs, x)"
    by (cases "simple_tick e st") auto
  from simple_tick_cpu_rows [of e st] t obtain new1 where
    n1: "s_cpu_metrics st1 = s_cpu_metrics st @ new1"
        "list_all (\<lambda>r. sc_interrupts r = None) new1"
    by auto
  from Cons.IH [of st1] obtain new2 where
    n2: "s_cpu_metrics (fst (simple_log_loop es st1)) = s_cpu_metrics st1 @ new2"
        "list_all (\<lambda>r. sc_interrupts r = None) new2"
    by auto
  show ?case
  proof (cases "s_env_running e")
    case False
    then show ?thesis by simp
  next
    case True
    show ?thesis
    proof (cases x)
      case None
      with True t n1 n2 show ?thesis
        by (auto split: prod.splits)
    next
      case (Some ex)
      with True t n1 show ?thesis by auto
    qed
  qed
qed

lemma simple_log_metrics_cpu_rows:
  "\<exists>new. s_cpu_metrics (fst (simple_log_metrics procs0 envs st)) = s_cpu_metrics st @ new
         \<and> list_all (\<lambda>r. sc_interrupts r = None) new"
  using simple_log_loop_cpu_rows [of envs st]
  by (auto simp: simple_log_metrics_def split: option.splits sum.splits)

text \<open>
  C10. A sample returned by \<^verbatim>\<open>get_cpu_details\<close> has \<^verbatim>\<open>interrupts\<close> None. Whatever the
  sampling loop meets, it keeps the cpu rows it found and every cpu row it appends has a
  NULL \<^verbatim>\<open>interrupts\<close>; started on a fresh file, every row of the cpu table has. The same
  holds for the loop of simple-db-sync-monitor.py.
\<close>

theorem cpu_interrupts_always_null:
  "(case get_cpu_details p of None \<Rightarrow> True | Some d \<Rightarrow> cpu_interrupts d = None)
   \<and> take (length (cpu_metrics st)) (cpu_metrics (fst (log_metrics m procs0 envs st)))
       = cpu_metrics st
   \<and> list_all (\<lambda>r. c_interrupts r = None)
       (drop (length (cpu_metrics st)) (cpu_metrics (fst (log_metrics m procs0 envs st))))
   \<and> list_all (\<lambda>r. c_interrupts r = None)
       (cpu_metrics (fst (log_metrics m procs0 envs (init_db None))))
   \<and> take (length (s_cpu_metrics sst))
         (s_cpu_metrics (fst (simple_log_metrics procs0 senvs sst)))
       = s_cpu_metrics sst
   \<and> list_all (\<lambda>r. sc_interrupts r = None)
       (drop (length (s_cpu_metrics sst))
         (s_cpu_metrics (fst (simple_log_metrics procs0 senvs sst))))
   \<and> list_all (\<lambda>r. sc_interrupts r = None)
       (s_cpu_metrics (fst (simple_log_metrics procs0 senvs (simple_init_db None))))"
proof -
  have a: "case get_cpu_details p of None \<Rightarrow> True | Some d \<Rightarrow> cpu_interrupts d = None"
    by (simp add: get_cpu_details_def split: sum.splits)
  obtain new where n: "cpu_metrics (fst (log_metrics m procs0 envs st)) = cpu_metrics st @ new"
    "list_all (\<lambda>r. c_interrupts r = None) new"
    using log_metrics_cpu_rows by blast
  obtain new0 where n0: "cpu_metrics (fst (log_metrics m procs0 envs (init_db None)))
      = cpu_metrics (init_db None) @ new0" "list_all (\<lambda>r. c_interrupts r = None) new0"
    using log_metrics_cpu_rows by blast
  obtain snew where s: "s_cpu_metrics (fst (simple_log_metrics procs0 senvs sst))
      = s_cpu_metrics sst @ snew" "list_all (\<lambda>r. sc_interrupts r = None) snew"
    using simple_log_metrics_cpu_rows by blast
  obtain snew0 where s0: "s_cpu_metrics (fst (simple_log_metrics procs0 senvs (simple_init_db None)))
      = s_cpu_metrics (simple_init_db None) @ snew0" "list_all (\<lambda>r. sc_interrupts r = None) snew0"
    using simple_log_metrics_cpu_rows by blast
  from a n n0 s s0 show ?thesis
    by (simp add: init_db_def empty_store_def simple_init_db_def s_empty_store_def)
qed

section \<open>Memory fields that the platform does not expose\<close>



lemma simple_get_memory_details_absent:
  assumes "proc_memory_info p = Inr mi" and "proc_memory_full_info p = Inr mfi"
    and "mfi_uss mfi = None" and "mfi_pss mfi = None" and "mfi_swap mfi = None"
    and "mi_shared mi \<noteq> None"
  shows "\<exists>d. simple_get_memory_details p = Returned d
             \<and> smem_uss d = None \<and> smem_pss d = None \<and> smem_swap d = None"
  using assms by (auto simp: simple_get_memory_details_def)


lemma simple_mem_df_append:
  "in_window datetime since (sm_timestamp r) \<Longrightarrow>
     simple_mem_df datetime since (st\<lparr>s_memory_metrics := s_memory_metrics st @ [r]\<rparr>)
       = simple_mem_df datetime since st
         @ [(sm_timestamp r, sm_rss r, sm_vms r, sm_uss r, sm_pss r, sm_swap r, sm_shared r)]"
  by (simp add: simple_mem_df_def)




end
